theory Spec2Isabelle
  imports Main "HOL-Library.Word"
begin

section \<open>The lock\<close>

text \<open>
  \<^verbatim>\<open>types/atomic/int.go\<close> guards its integer with a \<^verbatim>\<open>sync.RWMutex\<close> of Go's standard
  library. The lock is modelled by what its documentation promises to one caller: it is
  held by at most one writer or by a number of readers; \<^verbatim>\<open>Lock\<close> waits until nobody
  holds it and \<^verbatim>\<open>RLock\<close> until no writer does; \<^verbatim>\<open>Unlock\<close> and \<^verbatim>\<open>RUnlock\<close> of a lock
  that is not held that way are fatal run-time errors. The zero value is an unlocked lock.
\<close>

record RWMutex =
  writer :: bool
  readers :: nat

definition unlocked :: RWMutex where
  "unlocked = \<lparr>writer = False, readers = 0\<rparr>"

text \<open>
  A call that does not return a value: it waits for a lock that the state passed in
  never releases (\<open>Blocked\<close>), or the run-time system stops the program.
\<close>

datatype fault = Blocked | UnlockOfUnlocked | RUnlockOfUnlocked

definition Lock :: "RWMutex \<Rightarrow> fault + RWMutex" where
  "Lock m = (if writer m \<or> 0 < readers m then Inl Blocked else Inr (m\<lparr>writer := True\<rparr>))"

definition Unlock :: "RWMutex \<Rightarrow> fault + RWMutex" where
  "Unlock m = (if writer m then Inr (m\<lparr>writer := False\<rparr>) else Inl UnlockOfUnlocked)"

definition RLock :: "RWMutex \<Rightarrow> fault + RWMutex" where
  "RLock m = (if writer m then Inl Blocked else Inr (m\<lparr>readers := readers m + 1\<rparr>))"

definition RUnlock :: "RWMutex \<Rightarrow> fault + RWMutex" where
  "RUnlock m = (if 0 < readers m then Inr (m\<lparr>readers := readers m - 1\<rparr>) else Inl RUnlockOfUnlocked)"

section \<open>AtomicInt\<close>

text \<open>
  \<^verbatim>\<open>type AtomicInt struct { val int; mutex sync.RWMutex }\<close>. Go's \<^verbatim>\<open>int\<close> is a signed
  machine integer of the platform's width (32 or 64 bits) whose arithmetic wraps around;
  it is a word of width \<open>'w\<close>, read as a signed number by \<^const>\<open>sint\<close>.
\<close>

record (overloaded) ('w::len) AtomicInt =
  val :: "'w word"
  mutex :: RWMutex

text \<open>Sequencing: a statement that does not return ends the call.\<close>

definition andThen :: "fault + 'a \<Rightarrow> ('a \<Rightarrow> fault + 'b) \<Rightarrow> fault + 'b" where
  "andThen r f = (case r of Inl e \<Rightarrow> Inl e | Inr x \<Rightarrow> f x)"

text \<open>The four calls on the field \<^verbatim>\<open>ai.mutex\<close>.\<close>

definition mutex_Lock :: "'w::len AtomicInt \<Rightarrow> fault + 'w AtomicInt" where
  "mutex_Lock ai = andThen (Lock (mutex ai)) (\<lambda>m. Inr (ai\<lparr>mutex := m\<rparr>))"

definition mutex_Unlock :: "'w::len AtomicInt \<Rightarrow> fault + 'w AtomicInt" where
  "mutex_Unlock ai = andThen (Unlock (mutex ai)) (\<lambda>m. Inr (ai\<lparr>mutex := m\<rparr>))"

definition mutex_RLock :: "'w::len AtomicInt \<Rightarrow> fault + 'w AtomicInt" where
  "mutex_RLock ai = andThen (RLock (mutex ai)) (\<lambda>m. Inr (ai\<lparr>mutex := m\<rparr>))"

definition mutex_RUnlock :: "'w::len AtomicInt \<Rightarrow> fault + 'w AtomicInt" where
  "mutex_RUnlock ai = andThen (RUnlock (mutex ai)) (\<lambda>m. Inr (ai\<lparr>mutex := m\<rparr>))"

text \<open>
  Every method takes the container and gives back its return value with the container
  as the call leaves it. The deferred unlock runs last, once the return value is fixed.
\<close>

definition NewAtomicInt :: "'w::len word \<Rightarrow> 'w AtomicInt" where
  "NewAtomicInt v = \<lparr>val = v, mutex = unlocked\<rparr>"

definition AddAndGet :: "'w::len word \<Rightarrow> 'w AtomicInt \<Rightarrow> fault + ('w word \<times> 'w AtomicInt)" where
  "AddAndGet delta ai0 =
     andThen (mutex_Lock ai0) (\<lambda>ai1.
       let ai2 = ai1\<lparr>val := val ai1 + delta\<rparr>;
           res = val ai2
       in andThen (mutex_Unlock ai2) (\<lambda>ai3. Inr (res, ai3)))"

definition CompareAndSet :: "'w::len word \<Rightarrow> 'w word \<Rightarrow> 'w AtomicInt \<Rightarrow> fault + (bool \<times> 'w AtomicInt)" where
  "CompareAndSet expect update ai0 =
     andThen (mutex_Lock ai0) (\<lambda>ai1.
       if val ai1 = expect
       then let ai2 = ai1\<lparr>val := update\<rparr>
            in andThen (mutex_Unlock ai2) (\<lambda>ai3. Inr (True, ai3))
       else andThen (mutex_Unlock ai1) (\<lambda>ai3. Inr (False, ai3)))"

definition DecrementAndGet :: "'w::len AtomicInt \<Rightarrow> fault + ('w word \<times> 'w AtomicInt)" where
  "DecrementAndGet ai0 =
     andThen (mutex_Lock ai0) (\<lambda>ai1.
       let ai2 = ai1\<lparr>val := val ai1 - 1\<rparr>;
           res = val ai2
       in andThen (mutex_Unlock ai2) (\<lambda>ai3. Inr (res, ai3)))"

definition Get :: "'w::len AtomicInt \<Rightarrow> fault + ('w word \<times> 'w AtomicInt)" where
  "Get ai0 =
     andThen (mutex_RLock ai0) (\<lambda>ai1.
       let res = val ai1
       in andThen (mutex_RUnlock ai1) (\<lambda>ai2. Inr (res, ai2)))"

definition GetAndAdd :: "'w::len word \<Rightarrow> 'w AtomicInt \<Rightarrow> fault + ('w word \<times> 'w AtomicInt)" where
  "GetAndAdd delta ai0 =
     andThen (mutex_Lock ai0) (\<lambda>ai1.
       let old = val ai1;
           ai2 = ai1\<lparr>val := val ai1 + delta\<rparr>
       in andThen (mutex_Unlock ai2) (\<lambda>ai3. Inr (old, ai3)))"

definition GetAndDecrement :: "'w::len AtomicInt \<Rightarrow> fault + ('w word \<times> 'w AtomicInt)" where
  "GetAndDecrement ai0 =
     andThen (mutex_Lock ai0) (\<lambda>ai1.
       let old = val ai1;
           ai2 = ai1\<lparr>val := val ai1 - 1\<rparr>
       in andThen (mutex_Unlock ai2) (\<lambda>ai3. Inr (old, ai3)))"

definition GetAndIncrement :: "'w::len AtomicInt \<Rightarrow> fault + ('w word \<times> 'w AtomicInt)" where
  "GetAndIncrement ai0 =
     andThen (mutex_Lock ai0) (\<lambda>ai1.
       let old = val ai1;
           ai2 = ai1\<lparr>val := val ai1 + 1\<rparr>
       in andThen (mutex_Unlock ai2) (\<lambda>ai3. Inr (old, ai3)))"

definition GetAndSet :: "'w::len word \<Rightarrow> 'w AtomicInt \<Rightarrow> fault + ('w word \<times> 'w AtomicInt)" where
  "GetAndSet newValue ai0 =
     andThen (mutex_Lock ai0) (\<lambda>ai1.
       let old = val ai1;
           ai2 = ai1\<lparr>val := newValue\<rparr>
       in andThen (mutex_Unlock ai2) (\<lambda>ai3. Inr (old, ai3)))"

definition IncrementAndGet :: "'w::len AtomicInt \<Rightarrow> fault + ('w word \<times> 'w AtomicInt)" where
  "IncrementAndGet ai0 =
     andThen (mutex_Lock ai0) (\<lambda>ai1.
       let ai2 = ai1\<lparr>val := val ai1 + 1\<rparr>;
           res = val ai2
       in andThen (mutex_Unlock ai2) (\<lambda>ai3. Inr (res, ai3)))"

definition Set :: "'w::len word \<Rightarrow> 'w AtomicInt \<Rightarrow> fault + 'w AtomicInt" where
  "Set newValue ai0 =
     andThen (mutex_Lock ai0) (\<lambda>ai1.
       let ai2 = ai1\<lparr>val := newValue\<rparr>
       in andThen (mutex_Unlock ai2) (\<lambda>ai3. Inr ai3))"

text \<open>
  The signed number that a sum of signed numbers wraps to at width \<open>w\<close>: the one
  number of \<open>{- 2 ^ (w - 1) ..< 2 ^ (w - 1)}\<close> congruent to it modulo \<open>2 ^ w\<close>.
\<close>

definition wrap_signed :: "nat \<Rightarrow> int \<Rightarrow> int" where
  "wrap_signed w k = (k + 2 ^ (w - 1)) mod 2 ^ w - 2 ^ (w - 1)"

section \<open>The critical sections\<close>

text \<open>
  The lock while a writer holds it. On a container whose lock nobody holds, taking the
  lock gives the held lock and releasing the held lock gives the free one back.
\<close>

definition held :: RWMutex where
  "held = \<lparr>writer = True, readers = 0\<rparr>"

lemma mutex_Lock_unlocked:
  "mutex ai = unlocked \<Longrightarrow> mutex_Lock ai = Inr (ai\<lparr>mutex := held\<rparr>)"
  by (simp add: mutex_Lock_def Lock_def andThen_def unlocked_def held_def)

lemma mutex_Unlock_held:
  "mutex ai = held \<Longrightarrow> mutex_Unlock ai = Inr (ai\<lparr>mutex := unlocked\<rparr>)"
  by (simp add: mutex_Unlock_def Unlock_def andThen_def unlocked_def held_def)

lemma exclusive_section:
  assumes "mutex ai = unlocked"
  shows "andThen (mutex_Lock ai)
           (\<lambda>ai1. andThen (mutex_Unlock (ai1\<lparr>val := f (val ai1)\<rparr>)) (\<lambda>ai3. Inr (g (val ai1), ai3)))
         = Inr (g (val ai), ai\<lparr>val := f (val ai)\<rparr>)"
proof -
  have "mutex_Unlock (ai\<lparr>mutex := held, val := f (val ai)\<rparr>) = Inr (ai\<lparr>val := f (val ai)\<rparr>)"
    using assms by (simp add: mutex_Unlock_held)
  then show ?thesis
    using assms by (simp add: mutex_Lock_unlocked andThen_def)
qed

lemma shared_section:
  assumes "\<not> writer (mutex ai)"
  shows "andThen (mutex_RLock ai) (\<lambda>ai1. andThen (mutex_RUnlock ai1) (\<lambda>ai2. Inr (g (val ai1), ai2)))
         = Inr (g (val ai), ai)"
  using assms by (simp add: mutex_RLock_def mutex_RUnlock_def RLock_def RUnlock_def andThen_def)

subsection \<open>What each method does on a container whose lock is free\<close>

lemma AddAndGet_unlocked:
  "mutex ai = unlocked \<Longrightarrow>
   AddAndGet delta ai = Inr (val ai + delta, ai\<lparr>val := val ai + delta\<rparr>)"
  using exclusive_section [of ai "\<lambda>v. v + delta" "\<lambda>v. v + delta"]
  by (simp add: AddAndGet_def Let_def)

lemma DecrementAndGet_unlocked:
  "mutex ai = unlocked \<Longrightarrow>
   DecrementAndGet ai = Inr (val ai - 1, ai\<lparr>val := val ai - 1\<rparr>)"
  using exclusive_section [of ai "\<lambda>v. v - 1" "\<lambda>v. v - 1"]
  by (simp add: DecrementAndGet_def Let_def)

lemma IncrementAndGet_unlocked:
  "mutex ai = unlocked \<Longrightarrow>
   IncrementAndGet ai = Inr (val ai + 1, ai\<lparr>val := val ai + 1\<rparr>)"
  using exclusive_section [of ai "\<lambda>v. v + 1" "\<lambda>v. v + 1"]
  by (simp add: IncrementAndGet_def Let_def)

lemma GetAndAdd_unlocked:
  "mutex ai = unlocked \<Longrightarrow>
   GetAndAdd delta ai = Inr (val ai, ai\<lparr>val := val ai + delta\<rparr>)"
  using exclusive_section [of ai "\<lambda>v. v + delta" "\<lambda>v. v"]
  by (simp add: GetAndAdd_def Let_def)

lemma GetAndDecrement_unlocked:
  "mutex ai = unlocked \<Longrightarrow>
   GetAndDecrement ai = Inr (val ai, ai\<lparr>val := val ai - 1\<rparr>)"
  using exclusive_section [of ai "\<lambda>v. v - 1" "\<lambda>v. v"]
  by (simp add: GetAndDecrement_def Let_def)

lemma GetAndIncrement_unlocked:
  "mutex ai = unlocked \<Longrightarrow>
   GetAndIncrement ai = Inr (val ai, ai\<lparr>val := val ai + 1\<rparr>)"
  using exclusive_section [of ai "\<lambda>v. v + 1" "\<lambda>v. v"]
  by (simp add: GetAndIncrement_def Let_def)

lemma GetAndSet_unlocked:
  "mutex ai = unlocked \<Longrightarrow>
   GetAndSet newValue ai = Inr (val ai, ai\<lparr>val := newValue\<rparr>)"
  using exclusive_section [of ai "\<lambda>v. newValue" "\<lambda>v. v"]
  by (simp add: GetAndSet_def Let_def)

lemma Set_unlocked:
  "mutex ai = unlocked \<Longrightarrow> Set newValue ai = Inr (ai\<lparr>val := newValue\<rparr>)"
  by (simp add: Set_def Let_def mutex_Lock_unlocked mutex_Unlock_held andThen_def)

lemma CompareAndSet_unlocked:
  "mutex ai = unlocked \<Longrightarrow>
   CompareAndSet expect update ai =
     Inr (val ai = expect, if val ai = expect then ai\<lparr>val := update\<rparr> else ai)"
  by (simp add: CompareAndSet_def Let_def mutex_Lock_unlocked mutex_Unlock_held andThen_def)

lemma Get_no_writer:
  "\<not> writer (mutex ai) \<Longrightarrow> Get ai = Inr (val ai, ai)"
  using shared_section [of ai "\<lambda>v. v"]
  by (simp add: Get_def Let_def)

lemma Get_unlocked:
  "mutex ai = unlocked \<Longrightarrow> Get ai = Inr (val ai, ai)"
  by (simp add: Get_no_writer unlocked_def)

text \<open>A writer that holds the lock keeps every method waiting.\<close>

lemma writer_blocks:
  "writer (mutex ai) \<Longrightarrow>
   Get ai = Inl Blocked \<and> Set w ai = Inl Blocked \<and> IncrementAndGet ai = Inl Blocked
   \<and> CompareAndSet e u ai = Inl Blocked"
  by (simp add: Get_def Set_def IncrementAndGet_def CompareAndSet_def mutex_Lock_def
      mutex_RLock_def Lock_def RLock_def andThen_def)

lemma NewAtomicInt_unlocked: "mutex (NewAtomicInt v) = unlocked"
  by (simp add: NewAtomicInt_def)

lemma val_NewAtomicInt: "val (NewAtomicInt v) = v"
  by (simp add: NewAtomicInt_def)

lemma NewAtomicInt_update: "(NewAtomicInt v)\<lparr>val := x\<rparr> = NewAtomicInt x"
  by (simp add: NewAtomicInt_def)

section \<open>Wrap-around of the signed value\<close>

lemma wrap_signed_eq: "0 < w \<Longrightarrow> wrap_signed w k = signed_take_bit (w - 1) k"
  by (cases w) (simp_all add: wrap_signed_def signed_take_bit_eq_take_bit_shift take_bit_eq_mod)

lemma wrap_signed_range:
  "0 < w \<Longrightarrow> - (2 ^ (w - 1)) \<le> wrap_signed w k \<and> wrap_signed w k < 2 ^ (w - 1)"
  by (simp add: wrap_signed_eq signed_take_bit_int_greater_eq_minus_exp
      signed_take_bit_int_less_exp)

lemma wrap_signed_cong: "(wrap_signed w k - k) mod 2 ^ w = 0"
proof -
  have "(wrap_signed w k - k) mod 2 ^ w
      = ((k + 2 ^ (w - 1)) mod 2 ^ w - (k + 2 ^ (w - 1))) mod 2 ^ w"
    by (simp add: wrap_signed_def algebra_simps)
  also have "\<dots> = 0"
    by (simp add: mod_diff_left_eq)
  finally show ?thesis .
qed

lemma wrap_signed_id:
  "0 < w \<Longrightarrow> - (2 ^ (w - 1)) \<le> k \<Longrightarrow> k < 2 ^ (w - 1) \<Longrightarrow> wrap_signed w k = k"
  by (simp add: wrap_signed_eq signed_take_bit_int_eq_self)

lemma sint_add_wrap:
  "sint (a + b :: 'w::len word) = wrap_signed LENGTH('w) (sint a + sint b)"
  by (simp add: wrap_signed_eq sint_word_add)

lemma sint_succ_wrap:
  "sint (a + 1 :: 'w::len word) = wrap_signed LENGTH('w) (sint a + 1)"
  using sint_word_succ [of a] by (simp add: wrap_signed_eq word_succ_p1)

lemma sint_pred_wrap:
  "sint (a - 1 :: 'w::len word) = wrap_signed LENGTH('w) (sint a - 1)"
  using sint_word_pred [of a] by (simp add: wrap_signed_eq word_pred_m1)

section \<open>The properties of the specification\<close>

text \<open>
  C1. \<^verbatim>\<open>CompareAndSet(expect, update)\<close> on a container holding \<open>v\<close>: when \<open>v\<close> equals
  \<open>expect\<close> it returns true and the container holds \<open>update\<close>; when \<open>v\<close> differs from
  \<open>expect\<close> it returns false and the container is as it was.
\<close>

theorem CompareAndSet_swaps_iff_expected:
  assumes "mutex ai = unlocked"
  shows "(val ai = expect \<longrightarrow> CompareAndSet expect update ai = Inr (True, ai\<lparr>val := update\<rparr>))
       \<and> (val ai \<noteq> expect \<longrightarrow> CompareAndSet expect update ai = Inr (False, ai))"
  using assms by (simp add: CompareAndSet_unlocked)

theorem CompareAndSet_swaps_iff_expected_witness:
  "mutex (NewAtomicInt (8 :: 64 word)) = unlocked
   \<and> val (NewAtomicInt (8 :: 64 word)) = 8
   \<and> CompareAndSet 8 10 (NewAtomicInt (8 :: 64 word)) = Inr (True, NewAtomicInt 10)
   \<and> mutex (NewAtomicInt (10 :: 64 word)) = unlocked
   \<and> val (NewAtomicInt (10 :: 64 word)) \<noteq> 8
   \<and> CompareAndSet 8 99 (NewAtomicInt (10 :: 64 word)) = Inr (False, NewAtomicInt 10)"
proof -
  have free: "mutex (NewAtomicInt v) = unlocked" for v :: "64 word"
    by (simp add: NewAtomicInt_def)
  show ?thesis
    using CompareAndSet_swaps_iff_expected [OF free, of 8 8 10]
      CompareAndSet_swaps_iff_expected [OF free, of 10 8 99]
    by (simp add: NewAtomicInt_def)
qed

text \<open>
  C2. On a container holding \<open>v\<close>: \<^verbatim>\<open>AddAndGet(d)\<close> stores \<open>v + d\<close> and returns
  \<open>v + d\<close>, \<^verbatim>\<open>IncrementAndGet()\<close> stores and returns \<open>v + 1\<close>, \<^verbatim>\<open>DecrementAndGet()\<close>
  stores and returns \<open>v - 1\<close>, in the arithmetic of Go's \<^verbatim>\<open>int\<close>.
\<close>

theorem update_and_get_return_new:
  assumes "mutex ai = unlocked"
  shows "AddAndGet d ai = Inr (val ai + d, ai\<lparr>val := val ai + d\<rparr>)
       \<and> IncrementAndGet ai = Inr (val ai + 1, ai\<lparr>val := val ai + 1\<rparr>)
       \<and> DecrementAndGet ai = Inr (val ai - 1, ai\<lparr>val := val ai - 1\<rparr>)"
  using assms
  by (simp add: AddAndGet_unlocked IncrementAndGet_unlocked DecrementAndGet_unlocked)

theorem update_and_get_return_new_witness:
  "mutex (NewAtomicInt (5 :: 64 word)) = unlocked
   \<and> AddAndGet 3 (NewAtomicInt (5 :: 64 word)) = Inr (8, NewAtomicInt 8)
   \<and> IncrementAndGet (NewAtomicInt (5 :: 64 word)) = Inr (6, NewAtomicInt 6)
   \<and> DecrementAndGet (NewAtomicInt (5 :: 64 word)) = Inr (4, NewAtomicInt 4)"
proof -
  have free: "mutex (NewAtomicInt (5 :: 64 word)) = unlocked"
    by (simp add: NewAtomicInt_def)
  show ?thesis
    using update_and_get_return_new [OF free, of 3]
    by (simp add: NewAtomicInt_def)
qed

text \<open>
  C3. On a container holding \<open>v\<close>: \<^verbatim>\<open>GetAndAdd(d)\<close> returns \<open>v\<close> and stores \<open>v + d\<close>,
  \<^verbatim>\<open>GetAndIncrement()\<close> returns \<open>v\<close> and stores \<open>v + 1\<close>, \<^verbatim>\<open>GetAndDecrement()\<close>
  returns \<open>v\<close> and stores \<open>v - 1\<close>.
\<close>

theorem get_and_update_return_old:
  assumes "mutex ai = unlocked"
  shows "GetAndAdd d ai = Inr (val ai, ai\<lparr>val := val ai + d\<rparr>)
       \<and> GetAndIncrement ai = Inr (val ai, ai\<lparr>val := val ai + 1\<rparr>)
       \<and> GetAndDecrement ai = Inr (val ai, ai\<lparr>val := val ai - 1\<rparr>)"
  using assms
  by (simp add: GetAndAdd_unlocked GetAndIncrement_unlocked GetAndDecrement_unlocked)

theorem get_and_update_return_old_witness:
  "mutex (NewAtomicInt (5 :: 64 word)) = unlocked
   \<and> GetAndAdd 3 (NewAtomicInt (5 :: 64 word)) = Inr (5, NewAtomicInt 8)
   \<and> GetAndIncrement (NewAtomicInt (5 :: 64 word)) = Inr (5, NewAtomicInt 6)
   \<and> GetAndDecrement (NewAtomicInt (5 :: 64 word)) = Inr (5, NewAtomicInt 4)"
proof -
  have free: "mutex (NewAtomicInt (5 :: 64 word)) = unlocked"
    by (simp add: NewAtomicInt_def)
  show ?thesis
    using get_and_update_return_old [OF free, of 3]
    by (simp add: NewAtomicInt_def)
qed

text \<open>
  C4. \<^verbatim>\<open>GetAndSet(w)\<close> on a container holding \<open>v\<close> returns \<open>v\<close>, and \<^verbatim>\<open>Get()\<close> on the
  container it leaves returns \<open>w\<close>.
\<close>

theorem GetAndSet_then_Get:
  assumes "mutex ai = unlocked"
  shows "\<exists>ai'. GetAndSet w ai = Inr (val ai, ai') \<and> Get ai' = Inr (w, ai')"
proof -
  have "GetAndSet w ai = Inr (val ai, ai\<lparr>val := w\<rparr>)"
    using assms by (rule GetAndSet_unlocked)
  moreover have "Get (ai\<lparr>val := w\<rparr>) = Inr (w, ai\<lparr>val := w\<rparr>)"
    using assms by (simp add: Get_unlocked)
  ultimately show ?thesis by blast
qed

theorem GetAndSet_then_Get_witness:
  "mutex (NewAtomicInt (5 :: 64 word)) = unlocked
   \<and> (\<exists>ai'. GetAndSet 7 (NewAtomicInt (5 :: 64 word)) = Inr (5, ai') \<and> Get ai' = Inr (7, ai'))"
proof -
  have free: "mutex (NewAtomicInt (5 :: 64 word)) = unlocked"
    by (simp add: NewAtomicInt_def)
  show ?thesis
    using GetAndSet_then_Get [OF free, of 7]
    by (simp add: NewAtomicInt_def)
qed

text \<open>
  C5. The container made by \<^verbatim>\<open>NewAtomicInt(initial)\<close> holds \<open>initial\<close>: \<^verbatim>\<open>Get()\<close> on it
  returns \<open>initial\<close>.
\<close>

theorem NewAtomicInt_holds_initial:
  "val (NewAtomicInt initial) = initial
   \<and> Get (NewAtomicInt initial) = Inr (initial, NewAtomicInt initial)"
  by (simp add: Get_unlocked NewAtomicInt_unlocked val_NewAtomicInt)

text \<open>
  C6. \<^verbatim>\<open>IncrementAndGet()\<close> and then \<^verbatim>\<open>DecrementAndGet()\<close> on a container holding \<open>v\<close>:
  the decrement returns \<open>v\<close> and the container is as it was before the two calls.
\<close>

theorem increment_then_decrement:
  assumes "mutex ai = unlocked"
  shows "andThen (IncrementAndGet ai) (\<lambda>(r1, ai1). DecrementAndGet ai1) = Inr (val ai, ai)"
proof -
  have "IncrementAndGet ai = Inr (val ai + 1, ai\<lparr>val := val ai + 1\<rparr>)"
    using assms by (rule IncrementAndGet_unlocked)
  moreover have "DecrementAndGet (ai\<lparr>val := val ai + 1\<rparr>) = Inr (val ai, ai)"
    using assms DecrementAndGet_unlocked [of "ai\<lparr>val := val ai + 1\<rparr>"] by simp
  ultimately show ?thesis
    by (simp add: andThen_def)
qed

theorem increment_then_decrement_witness:
  "mutex (NewAtomicInt (9223372036854775807 :: 64 word)) = unlocked
   \<and> andThen (IncrementAndGet (NewAtomicInt (9223372036854775807 :: 64 word)))
        (\<lambda>(r1, ai1). DecrementAndGet ai1)
     = Inr (9223372036854775807, NewAtomicInt 9223372036854775807)"
proof -
  have free: "mutex (NewAtomicInt (9223372036854775807 :: 64 word)) = unlocked"
    by (simp add: NewAtomicInt_def)
  show ?thesis
    using increment_then_decrement [OF free]
    by (simp add: NewAtomicInt_def)
qed

text \<open>
  C7. The scenario of the specification, on a 64-bit and on a 32-bit platform: from
  \<^verbatim>\<open>NewAtomicInt(5)\<close>, the calls \<^verbatim>\<open>AddAndGet(3)\<close>, \<^verbatim>\<open>CompareAndSet(8, 10)\<close>, \<^verbatim>\<open>Get()\<close>,
  \<^verbatim>\<open>CompareAndSet(8, 99)\<close>, \<^verbatim>\<open>Get()\<close>, \<^verbatim>\<open>GetAndIncrement()\<close>, \<^verbatim>\<open>Get()\<close>, each on the
  container the call before it left, return 8, true, 10, false, 10, 10 and 11.
\<close>

theorem scenario_from_five:
  "andThen (AddAndGet 3 (NewAtomicInt (5 :: 64 word))) (\<lambda>(r1, a1).
   andThen (CompareAndSet 8 10 a1) (\<lambda>(r2, a2).
   andThen (Get a2) (\<lambda>(r3, a3).
   andThen (CompareAndSet 8 99 a3) (\<lambda>(r4, a4).
   andThen (Get a4) (\<lambda>(r5, a5).
   andThen (GetAndIncrement a5) (\<lambda>(r6, a6).
   andThen (Get a6) (\<lambda>(r7, a7).
     Inr (r1, r2, r3, r4, r5, r6, r7))))))))
   = Inr (8, True, 10, False, 10, 10, 11)
   \<and>
   andThen (AddAndGet 3 (NewAtomicInt (5 :: 32 word))) (\<lambda>(r1, a1).
   andThen (CompareAndSet 8 10 a1) (\<lambda>(r2, a2).
   andThen (Get a2) (\<lambda>(r3, a3).
   andThen (CompareAndSet 8 99 a3) (\<lambda>(r4, a4).
   andThen (Get a4) (\<lambda>(r5, a5).
   andThen (GetAndIncrement a5) (\<lambda>(r6, a6).
   andThen (Get a6) (\<lambda>(r7, a7).
     Inr (r1, r2, r3, r4, r5, r6, r7))))))))
   = Inr (8, True, 10, False, 10, 10, 11)"
  by (simp add: AddAndGet_unlocked CompareAndSet_unlocked Get_unlocked GetAndIncrement_unlocked
      NewAtomicInt_unlocked val_NewAtomicInt NewAtomicInt_update andThen_def)

text \<open>
  C8. A call changes nothing but the stored value. On a container whose lock is free,
  \<^verbatim>\<open>Get()\<close> gives back the very container it was called on, and every other method
  gives back its return value and the container with the field \<open>val\<close> set to the
  value the method stores: the lock is again as it was, and no call fails.
\<close>

theorem only_val_changes:
  assumes "mutex ai = unlocked"
  shows "Get ai = Inr (val ai, ai)
       \<and> Set w ai = Inr (ai\<lparr>val := w\<rparr>)
       \<and> GetAndSet w ai = Inr (val ai, ai\<lparr>val := w\<rparr>)
       \<and> AddAndGet d ai = Inr (val ai + d, ai\<lparr>val := val ai + d\<rparr>)
       \<and> GetAndAdd d ai = Inr (val ai, ai\<lparr>val := val ai + d\<rparr>)
       \<and> IncrementAndGet ai = Inr (val ai + 1, ai\<lparr>val := val ai + 1\<rparr>)
       \<and> GetAndIncrement ai = Inr (val ai, ai\<lparr>val := val ai + 1\<rparr>)
       \<and> DecrementAndGet ai = Inr (val ai - 1, ai\<lparr>val := val ai - 1\<rparr>)
       \<and> GetAndDecrement ai = Inr (val ai, ai\<lparr>val := val ai - 1\<rparr>)
       \<and> CompareAndSet e u ai
           = Inr (val ai = e, ai\<lparr>val := if val ai = e then u else val ai\<rparr>)"
  using assms
  by (simp add: Get_unlocked Set_unlocked GetAndSet_unlocked AddAndGet_unlocked
      GetAndAdd_unlocked IncrementAndGet_unlocked GetAndIncrement_unlocked
      DecrementAndGet_unlocked GetAndDecrement_unlocked CompareAndSet_unlocked)

theorem only_val_changes_witness:
  "mutex (NewAtomicInt (5 :: 64 word)) = unlocked
   \<and> Get (NewAtomicInt (5 :: 64 word)) = Inr (5, NewAtomicInt 5)
   \<and> Set 7 (NewAtomicInt (5 :: 64 word)) = Inr (NewAtomicInt 7)
   \<and> GetAndSet 7 (NewAtomicInt (5 :: 64 word)) = Inr (5, NewAtomicInt 7)
   \<and> AddAndGet 3 (NewAtomicInt (5 :: 64 word)) = Inr (8, NewAtomicInt 8)
   \<and> GetAndAdd 3 (NewAtomicInt (5 :: 64 word)) = Inr (5, NewAtomicInt 8)
   \<and> IncrementAndGet (NewAtomicInt (5 :: 64 word)) = Inr (6, NewAtomicInt 6)
   \<and> GetAndIncrement (NewAtomicInt (5 :: 64 word)) = Inr (5, NewAtomicInt 6)
   \<and> DecrementAndGet (NewAtomicInt (5 :: 64 word)) = Inr (4, NewAtomicInt 4)
   \<and> GetAndDecrement (NewAtomicInt (5 :: 64 word)) = Inr (5, NewAtomicInt 4)
   \<and> CompareAndSet 5 9 (NewAtomicInt (5 :: 64 word)) = Inr (True, NewAtomicInt 9)"
proof -
  have free: "mutex (NewAtomicInt (5 :: 64 word)) = unlocked"
    by (simp add: NewAtomicInt_def)
  show ?thesis
    using only_val_changes [OF free, of 7 3 5 9]
    by (simp add: NewAtomicInt_def)
qed

text \<open>
  C10. The six arithmetic methods wrap around in two's complement at the width \<open>w\<close> of
  \<^verbatim>\<open>int\<close>: on a container holding \<open>v\<close> each of them returns, and the signed value it
  stores is the number of \<open>{- 2 ^ (w - 1) ..< 2 ^ (w - 1)}\<close> congruent modulo \<open>2 ^ w\<close>
  to the sum of the signed values of \<open>v\<close> and \<open>d\<close>, to the signed value of \<open>v\<close> plus one,
  or to it minus one.
\<close>

theorem arithmetic_wraps_around:
  fixes ai :: "'w::len AtomicInt"
  assumes "mutex ai = unlocked"
  shows "(\<exists>r ai'. AddAndGet d ai = Inr (r, ai')
            \<and> sint (val ai') = wrap_signed LENGTH('w) (sint (val ai) + sint d))
       \<and> (\<exists>r ai'. GetAndAdd d ai = Inr (r, ai')
            \<and> sint (val ai') = wrap_signed LENGTH('w) (sint (val ai) + sint d))
       \<and> (\<exists>r ai'. IncrementAndGet ai = Inr (r, ai')
            \<and> sint (val ai') = wrap_signed LENGTH('w) (sint (val ai) + 1))
       \<and> (\<exists>r ai'. GetAndIncrement ai = Inr (r, ai')
            \<and> sint (val ai') = wrap_signed LENGTH('w) (sint (val ai) + 1))
       \<and> (\<exists>r ai'. DecrementAndGet ai = Inr (r, ai')
            \<and> sint (val ai') = wrap_signed LENGTH('w) (sint (val ai) - 1))
       \<and> (\<exists>r ai'. GetAndDecrement ai = Inr (r, ai')
            \<and> sint (val ai') = wrap_signed LENGTH('w) (sint (val ai) - 1))"
proof -
  have stored: "sint (val (ai\<lparr>val := x\<rparr>)) = sint x" for x
    by simp
  have "AddAndGet d ai = Inr (val ai + d, ai\<lparr>val := val ai + d\<rparr>)"
    using assms by (rule AddAndGet_unlocked)
  then have add: "\<exists>r ai'. AddAndGet d ai = Inr (r, ai')
      \<and> sint (val ai') = wrap_signed LENGTH('w) (sint (val ai) + sint d)"
    using stored sint_add_wrap by metis
  have "GetAndAdd d ai = Inr (val ai, ai\<lparr>val := val ai + d\<rparr>)"
    using assms by (rule GetAndAdd_unlocked)
  then have get_add: "\<exists>r ai'. GetAndAdd d ai = Inr (r, ai')
      \<and> sint (val ai') = wrap_signed LENGTH('w) (sint (val ai) + sint d)"
    using stored sint_add_wrap by metis
  have "IncrementAndGet ai = Inr (val ai + 1, ai\<lparr>val := val ai + 1\<rparr>)"
    using assms by (rule IncrementAndGet_unlocked)
  then have inc: "\<exists>r ai'. IncrementAndGet ai = Inr (r, ai')
      \<and> sint (val ai') = wrap_signed LENGTH('w) (sint (val ai) + 1)"
    using stored sint_succ_wrap by metis
  have "GetAndIncrement ai = Inr (val ai, ai\<lparr>val := val ai + 1\<rparr>)"
    using assms by (rule GetAndIncrement_unlocked)
  then have get_inc: "\<exists>r ai'. GetAndIncrement ai = Inr (r, ai')
      \<and> sint (val ai') = wrap_signed LENGTH('w) (sint (val ai) + 1)"
    using stored sint_succ_wrap by metis
  have "DecrementAndGet ai = Inr (val ai - 1, ai\<lparr>val := val ai - 1\<rparr>)"
    using assms by (rule DecrementAndGet_unlocked)
  then have dec: "\<exists>r ai'. DecrementAndGet ai = Inr (r, ai')
      \<and> sint (val ai') = wrap_signed LENGTH('w) (sint (val ai) - 1)"
    using stored sint_pred_wrap by metis
  have "GetAndDecrement ai = Inr (val ai, ai\<lparr>val := val ai - 1\<rparr>)"
    using assms by (rule GetAndDecrement_unlocked)
  then have get_dec: "\<exists>r ai'. GetAndDecrement ai = Inr (r, ai')
      \<and> sint (val ai') = wrap_signed LENGTH('w) (sint (val ai) - 1)"
    using stored sint_pred_wrap by metis
  from add get_add inc get_inc dec get_dec show ?thesis
    by (intro conjI)
qed

theorem arithmetic_wraps_around_witness:
  "mutex (NewAtomicInt (9223372036854775807 :: 64 word)) = unlocked
   \<and> (\<exists>r ai'. AddAndGet 1 (NewAtomicInt (9223372036854775807 :: 64 word)) = Inr (r, ai')
         \<and> sint (val ai') = - 9223372036854775808)
   \<and> (\<exists>r ai'. GetAndAdd 1 (NewAtomicInt (9223372036854775807 :: 64 word)) = Inr (r, ai')
         \<and> sint (val ai') = - 9223372036854775808)
   \<and> (\<exists>r ai'. IncrementAndGet (NewAtomicInt (9223372036854775807 :: 64 word)) = Inr (r, ai')
         \<and> sint (val ai') = - 9223372036854775808)
   \<and> (\<exists>r ai'. GetAndIncrement (NewAtomicInt (9223372036854775807 :: 64 word)) = Inr (r, ai')
         \<and> sint (val ai') = - 9223372036854775808)
   \<and> (\<exists>r ai'. DecrementAndGet (NewAtomicInt (9223372036854775807 :: 64 word)) = Inr (r, ai')
         \<and> sint (val ai') = 9223372036854775806)
   \<and> (\<exists>r ai'. GetAndDecrement (NewAtomicInt (9223372036854775807 :: 64 word)) = Inr (r, ai')
         \<and> sint (val ai') = 9223372036854775806)"
proof -
  have free: "mutex (NewAtomicInt (9223372036854775807 :: 64 word)) = unlocked"
    by (simp add: NewAtomicInt_def)
  show ?thesis
    using arithmetic_wraps_around [OF free, of 1]
    by (simp add: NewAtomicInt_def wrap_signed_def)
qed

end
